theory Spec2Isabelle
  imports Main "HOL-Library.Finite_Map" "HOL-Library.FSet" "HOL-Library.Word"
begin

section \<open>Data model of the longpoll package\<close>

text \<open>
  Go maps are finite maps. Go's \<open>int\<close> counters (event indices, connection
  numbers) start at zero and only grow by one, so they are natural numbers; the
  64-bit wrap-around is out of reach of every execution considered here. A lookup of a
  missing key yields the zero value of the value type, which each lookup below writes
  out. The payload of an event is an \<open>interface{}\<close>: a value of an arbitrary type
  \<open>'d\<close>, or \<open>nil\<close> (\<open>None\<close>).
\<close>

type_synonym clientExist = "(string, bool) fmap"
type_synonym feedToClients = "(string, clientExist) fmap"

record 'd event =
  Data :: "'d option"
  Feed :: string
  Timestamp :: "32 word"

type_synonym 'd events = "(nat, 'd event) fmap"
type_synonym clientToNewEvents = "(string, nat list) fmap"
type_synonym clientToConnection = "(string, nat) fmap"

text \<open>
  A channel made by \<open>make(chan string)\<close> is named by the number of the connection
  it is made for (one channel is made per connection number).
\<close>

type_synonym chan = nat
type_synonym connectionChannel = "(nat, chan) fmap"

record 'd LongPoll =
  globalClients :: clientExist
  globalEvents :: "'d events"
  globalClientToNewEvents :: clientToNewEvents
  globalFeedToClients :: feedToClients
  globalClientToConnection :: clientToConnection
  globalConnectionChannel :: connectionChannel
  globalLastConnection :: nat

datatype 'd response =
    ErrorResponse int string
  | SubscriptionResponse string "string list"
  | EventResponse "'d event list"

definition zero_event :: "'d event" where
  "zero_event = \<lparr>Data = None, Feed = [], Timestamp = 0\<rparr>"

text \<open>Lookups of the three maps that the code reads without testing for presence.\<close>

definition clientPending :: "'d LongPoll \<Rightarrow> string \<Rightarrow> bool" where
  "clientPending lp client =
     (case fmlookup (globalClients lp) client of Some b \<Rightarrow> b | None \<Rightarrow> False)"

definition newEvents :: "'d LongPoll \<Rightarrow> string \<Rightarrow> nat list" where
  "newEvents lp client =
     (case fmlookup (globalClientToNewEvents lp) client of Some ids \<Rightarrow> ids | None \<Rightarrow> [])"

definition eventAt :: "'d LongPoll \<Rightarrow> nat \<Rightarrow> 'd event" where
  "eventAt lp eventID =
     (case fmlookup (globalEvents lp) eventID of Some e \<Rightarrow> e | None \<Rightarrow> zero_event)"

section \<open>Tokens\<close>

text \<open>
  \<open>math/rand\<close> is not part of the repository. The generator \<open>seededRand\<close> is a
  stream of raw outputs, and \<open>Intn n\<close> reduces the next one to the range
  \<open>[0, n)\<close>, which is all the code relies on.
\<close>

type_synonym rand = "nat \<Rightarrow> nat"

definition Intn :: "rand \<Rightarrow> nat \<Rightarrow> nat \<times> rand" where
  "Intn r n = (r 0 mod n, \<lambda>i. r (Suc i))"

definition charset :: string where
  "charset = ''abcdefghijklmnopqrstuvwxyzABCDEFGHIJKLMNOPQRSTUVWXYZ0123456789''"

text \<open>The loop \<open>for i := range b\<close> of \<open>GetNewToken\<close>, filling \<open>b\<close> from the left.\<close>

fun fill_token :: "nat \<Rightarrow> rand \<Rightarrow> string \<times> rand" where
  "fill_token 0 r = ([], r)"
| "fill_token (Suc n) r =
     (let (k, r1) = Intn r (length charset);
          (rest, r2) = fill_token n r1
      in (charset ! k # rest, r2))"

text \<open>\<open>make([]byte, length)\<close> panics on a negative length: the result is \<open>None\<close>.\<close>

definition GetNewToken :: "int \<Rightarrow> rand \<Rightarrow> (string \<times> rand) option" where
  "GetNewToken len r = (if len < 0 then None else Some (fill_token (nat len) r))"

section \<open>Construction and feed registration\<close>

definition empty_LongPoll :: "'d LongPoll" where
  "empty_LongPoll = \<lparr>globalClients = fmempty, globalEvents = fmempty,
     globalClientToNewEvents = fmempty, globalFeedToClients = fmempty,
     globalClientToConnection = fmempty, globalConnectionChannel = fmempty,
     globalLastConnection = 0\<rparr>"

text \<open>\<open>New(opt)\<close> of longpoll.go: every configured feed starts with no subscriber.\<close>

definition New :: "string list \<Rightarrow> 'd LongPoll" where
  "New feeds = fold (\<lambda>feed lp. lp\<lparr>globalFeedToClients :=
       fmupd feed fmempty (globalFeedToClients lp)\<rparr>) feeds empty_LongPoll"

text \<open>
  \<open>AddFeed\<close> and \<open>AddFeeds\<close> of the later revision of the module, where feeds are
  registered after construction.
\<close>

definition AddFeed :: "'d LongPoll \<Rightarrow> string \<Rightarrow> 'd LongPoll" where
  "AddFeed lp feed =
     (if length feed > 0
      then lp\<lparr>globalFeedToClients := fmupd feed fmempty (globalFeedToClients lp)\<rparr>
      else lp)"

definition AddFeeds :: "'d LongPoll \<Rightarrow> string list \<Rightarrow> 'd LongPoll" where
  "AddFeeds lp feeds = fold (\<lambda>feed l. AddFeed l feed) feeds lp"

section \<open>The running server\<close>

text \<open>
  Besides the \<open>LongPoll\<close> structure the running server consists of the generator
  \<open>seededRand\<close> and of its goroutines: the \<open>ListenHandler\<close> calls suspended in
  \<open>operation := <-comunicationChannel\<close> (by channel, with their \<open>token\<close>), the
  \<open>ListenHandler\<close> calls that have been handed a signal in that receive and have not
  gone on yet (by channel, with their \<open>token\<close> and the signal), the
  \<open>notifyTimeout\<close> goroutines that have not reached their send yet (by channel), and
  the \<open>notifyEvent\<close> goroutines that \<open>NewEvent\<close> has started and that have not run
  yet (how many per client).

  A goroutine runs without interruption until it blocks: in the receive of
  \<open>ListenHandler\<close>, or in a send on a channel on which nobody receives. The sender of
  a signal that is received does not block and goes on; the call that received the signal
  goes on when it is scheduled, which is a step of its own, so that other goroutines may
  run between its receive and the rest of its body.
\<close>

record 'd system =
  poll :: "'d LongPoll"
  rng :: rand
  receiving :: "(chan, string) fmap"
  resuming :: "(chan, string \<times> string) fmap"
  sleeping :: "chan fset"
  spawned :: "string \<Rightarrow> nat"

text \<open>
  What a call does last: it answers the request, returns without an answer (a
  goroutine), stays in the receive of \<open>ListenHandler\<close>, stays forever in a send that
  nobody receives (\<open>None\<close> is the nil channel), or panics.
\<close>

datatype 'd outcome =
    Responded "'d response"
  | Returned
  | Receiving chan
  | Sending "chan option"
  | Panicked

text \<open>A signal that was delivered: the channel and the signal.\<close>

type_synonym signal = "chan \<times> string"

definition init :: "string list \<Rightarrow> rand \<Rightarrow> 'd system" where
  "init feeds r = \<lparr>poll = New feeds, rng = r, receiving = fmempty, resuming = fmempty,
     sleeping = {||}, spawned = (\<lambda>_. 0)\<rparr>"

subsection \<open>SubscribeHandler\<close>

text \<open>
  The subscription loop. An assignment into the nil map of a feed that is not registered
  panics: the flag is \<open>False\<close> and the map is as the loop left it.
\<close>

fun subscribe_loop :: "string \<Rightarrow> string list \<Rightarrow> feedToClients \<Rightarrow> feedToClients \<times> bool" where
  "subscribe_loop token [] m = (m, True)"
| "subscribe_loop token (feed # feeds) m =
     (case fmlookup m feed of
        None \<Rightarrow> (m, False)
      | Some cs \<Rightarrow> subscribe_loop token feeds (fmupd feed (fmupd token True cs) m))"

definition SubscribeHandler :: "'d system \<Rightarrow> string list option \<Rightarrow> 'd system \<times> 'd outcome" where
  "SubscribeHandler s query =
     (case query of
        None \<Rightarrow> (s, Responded (ErrorResponse 400 ''Missing feed''))
      | Some feeds \<Rightarrow>
          (case GetNewToken 32 (rng s) of
             None \<Rightarrow> (s, Panicked)
           | Some (token, r) \<Rightarrow>
               let lp1 = (poll s)\<lparr>globalClients := fmupd token False (globalClients (poll s))\<rparr>
               in (case find (\<lambda>feed. feed |\<notin>| fmdom (globalFeedToClients lp1)) feeds of
                     Some feed \<Rightarrow>
                       (s\<lparr>poll := lp1, rng := r\<rparr>,
                        Responded (ErrorResponse 500 (''Feed '' @ feed @ '' is not available'')))
                   | None \<Rightarrow>
                       let (m, ok) = subscribe_loop token feeds (globalFeedToClients lp1);
                           s' = s\<lparr>poll := lp1\<lparr>globalFeedToClients := m\<rparr>, rng := r\<rparr>
                       in if ok then (s', Responded (SubscriptionResponse token feeds))
                          else (s', Panicked))))"

subsection \<open>ListenHandler\<close>

text \<open>The end of \<open>ListenHandler\<close>: fetch the events, clean the list, forget the connection.\<close>

definition fetchEvents :: "'d LongPoll \<Rightarrow> string \<Rightarrow> 'd LongPoll \<times> 'd response" where
  "fetchEvents lp token =
     (lp\<lparr>globalClientToNewEvents := fmupd token [] (globalClientToNewEvents lp),
         globalClientToConnection := fmdrop token (globalClientToConnection lp)\<rparr>,
      EventResponse (map (eventAt lp) (newEvents lp token)))"

text \<open>\<open>ListenHandler\<close> from the receive on: what the call does with the signal it got.\<close>

definition ListenHandler_resume :: "'d LongPoll \<Rightarrow> string \<Rightarrow> string \<Rightarrow> 'd LongPoll \<times> 'd response" where
  "ListenHandler_resume lp token operation =
     (if operation = ''ABORT'' then (lp, ErrorResponse 204 ''Connection aborted'')
      else if operation = ''TIMEOUT''
      then (lp\<lparr>globalClientToConnection := fmdrop token (globalClientToConnection lp)\<rparr>,
            ErrorResponse 408 ''Request timeout'')
      else fetchEvents lp token)"

text \<open>
  A send on an unbuffered channel completes only when a call is receiving on it; that
  call then holds the signal and is no longer receiving. \<open>None\<close>: nobody receives, the
  sender stays in the send. (A channel is received on once, by the call that made it, so
  a sender that finds no receiver never finds one.)
\<close>

definition send :: "'d system \<Rightarrow> chan \<Rightarrow> string \<Rightarrow> 'd system option" where
  "send s ch operation =
     (case fmlookup (receiving s) ch of
        None \<Rightarrow> None
      | Some token \<Rightarrow>
          Some (s\<lparr>receiving := fmdrop ch (receiving s),
                  resuming := fmupd ch (token, operation) (resuming s)\<rparr>))"

text \<open>
  The call that received a signal on the channel goes on: the rest of \<open>ListenHandler\<close>
  with the state as it is now. A call that holds no signal is still in its receive.
\<close>

definition ListenHandler_continue :: "'d system \<Rightarrow> chan \<Rightarrow> 'd system \<times> 'd outcome" where
  "ListenHandler_continue s ch =
     (case fmlookup (resuming s) ch of
        None \<Rightarrow> (s, Receiving ch)
      | Some (token, operation) \<Rightarrow>
          let (lp', resp) = ListenHandler_resume (poll s) token operation
          in (s\<lparr>poll := lp', resuming := fmdrop ch (resuming s)\<rparr>, Responded resp))"

text \<open>\<open>ListenHandler\<close> from "Save the active connection for this client" to the receive.\<close>

definition ListenHandler_register :: "'d system \<Rightarrow> string \<Rightarrow> nat \<Rightarrow> 'd system \<times> 'd outcome" where
  "ListenHandler_register s token currentConnection =
     (let lp1 = (poll s)\<lparr>globalClientToConnection :=
                   fmupd token currentConnection (globalClientToConnection (poll s)),
                 globalConnectionChannel :=
                   fmupd currentConnection currentConnection (globalConnectionChannel (poll s))\<rparr>
      in if length (newEvents lp1 token) = 0
         then (s\<lparr>poll := lp1\<lparr>globalClients := fmupd token True (globalClients lp1)\<rparr>,
                 receiving := fmupd currentConnection token (receiving s),
                 sleeping := finsert currentConnection (sleeping s)\<rparr>,
               Receiving currentConnection)
         else let (lp2, resp) = fetchEvents lp1 token in (s\<lparr>poll := lp2\<rparr>, Responded resp))"

definition ListenHandler :: "'d system \<Rightarrow> string list option \<Rightarrow> 'd system \<times> 'd outcome \<times> signal list" where
  "ListenHandler s query =
     (case query of
        None \<Rightarrow> (s, Responded (ErrorResponse 400 ''Missing token''), [])
      | Some [] \<Rightarrow> (s, Panicked, [])
      | Some (token # _) \<Rightarrow>
          if token |\<notin>| fmdom (globalClients (poll s))
          then (s, Responded (ErrorResponse 401 ''Unauthorized''), [])
          else
            let currentConnection = globalLastConnection (poll s) + 1;
                s1 = s\<lparr>poll := (poll s)\<lparr>globalLastConnection := currentConnection\<rparr>\<rparr>
            in (case fmlookup (globalClientToConnection (poll s1)) token of
                  None \<Rightarrow>
                    let (s', out) = ListenHandler_register s1 token currentConnection
                    in (s', out, [])
                | Some previousConnectionIndex \<Rightarrow>
                    (case fmlookup (globalConnectionChannel (poll s1)) previousConnectionIndex of
                       None \<Rightarrow> (s1, Sending None, [])
                     | Some ch \<Rightarrow>
                         (case send s1 ch ''ABORT'' of
                            None \<Rightarrow> (s1, Sending (Some ch), [])
                          | Some s2 \<Rightarrow>
                              let (s', out) = ListenHandler_register s2 token currentConnection
                              in (s', out, [(ch, ''ABORT'')])))))"

subsection \<open>NewEvent and the notifiers\<close>

text \<open>
  \<open>NewEvent\<close> stores the event under \<open>len(lp.globalEvents)\<close>, appends that index to
  the list of every client of the feed (a feed that is not registered has the nil map of
  clients, over which the loop does not iterate) and starts one \<open>notifyEvent\<close> per
  such client. The clients are the keys of one map, so the loop visits each once and the
  order of the visits does not show. The clock is a parameter; the result is the
  \<open>error\<close> returned, \<open>None\<close> for \<open>nil\<close>.
\<close>

definition feedClients :: "'d LongPoll \<Rightarrow> string \<Rightarrow> clientExist" where
  "feedClients lp feed =
     (case fmlookup (globalFeedToClients lp) feed of Some cs \<Rightarrow> cs | None \<Rightarrow> fmempty)"

definition NewEvent :: "'d system \<Rightarrow> string \<Rightarrow> 'd option \<Rightarrow> int \<Rightarrow> 'd system \<times> string option" where
  "NewEvent s feed object now =
     (let newIndex = fcard (fmdom (globalEvents (poll s)));
          lp1 = (poll s)\<lparr>globalEvents :=
                  fmupd newIndex \<lparr>Data = object, Feed = feed, Timestamp = word_of_int now\<rparr>
                    (globalEvents (poll s))\<rparr>;
          clients = feedClients lp1 feed;
          lp2 = lp1\<lparr>globalClientToNewEvents :=
                  fmadd (globalClientToNewEvents lp1)
                    (fmmap_keys (\<lambda>client _. newEvents lp1 client @ [newIndex]) clients)\<rparr>
      in (s\<lparr>poll := lp2,
            spawned := (\<lambda>client. if client |\<in>| fmdom clients
                                  then Suc (spawned s client) else spawned s client)\<rparr>,
          None))"

definition notifyEvent :: "'d system \<Rightarrow> string \<Rightarrow> 'd system \<times> 'd outcome \<times> signal list" where
  "notifyEvent s client =
     (if clientPending (poll s) client
      then (case fmlookup (globalClientToConnection (poll s)) client of
              None \<Rightarrow> (s, Returned, [])
            | Some connection \<Rightarrow>
                (case fmlookup (globalConnectionChannel (poll s)) connection of
                   None \<Rightarrow> (s, Sending None, [])
                 | Some ch \<Rightarrow>
                     (case send s ch ''DONE'' of
                        None \<Rightarrow> (s, Sending (Some ch), [])
                      | Some s' \<Rightarrow>
                          (s'\<lparr>poll := (poll s')\<lparr>globalClients :=
                                 fmupd client False (globalClients (poll s'))\<rparr>\<rparr>,
                           Returned, [(ch, ''DONE'')]))))
      else (s, Returned, []))"

text \<open>\<open>notifyTimeout\<close> after its sleep: the send on the channel it was given.\<close>

definition notifyTimeout :: "'d system \<Rightarrow> chan \<Rightarrow> 'd system \<times> 'd outcome \<times> signal list" where
  "notifyTimeout s comunicationChanel =
     (case send s comunicationChanel ''TIMEOUT'' of
        None \<Rightarrow> (s, Sending (Some comunicationChanel), [])
      | Some s' \<Rightarrow> (s', Returned, [(comunicationChanel, ''TIMEOUT'')]))"

subsection \<open>Executions\<close>

text \<open>
  What happens to a server: a request to one of the two handlers, a call of
  \<open>NewEvent\<close>, and the scheduling of a goroutine that is due: a \<open>notifyEvent\<close> that
  was started for the client, the \<open>notifyTimeout\<close> of a channel whose sleep ends, a
  \<open>ListenHandler\<close> call that holds a signal. A goroutine that is not due has nothing
  to run.
\<close>

datatype 'd call =
    Subscribe "string list option"
  | Listen "string list option"
  | Publish string "'d option" int
  | RunNotify string
  | FireTimeout chan
  | Resume chan

fun step :: "'d system \<Rightarrow> 'd call \<Rightarrow> 'd system" where
  "step s (Subscribe query) = fst (SubscribeHandler s query)"
| "step s (Listen query) = fst (ListenHandler s query)"
| "step s (Publish feed object now) = fst (NewEvent s feed object now)"
| "step s (RunNotify client) =
     (if spawned s client > 0
      then fst (notifyEvent (s\<lparr>spawned := (spawned s)(client := spawned s client - 1)\<rparr>) client)
      else s)"
| "step s (FireTimeout ch) =
     (if ch |\<in>| sleeping s
      then fst (notifyTimeout (s\<lparr>sleeping := sleeping s |-| {|ch|}\<rparr>) ch)
      else s)"
| "step s (Resume ch) = fst (ListenHandler_continue s ch)"

definition exec :: "'d system \<Rightarrow> 'd call list \<Rightarrow> 'd system" where
  "exec s calls = foldl step s calls"

text \<open>The server after the calls, started with the configured feeds and the generator.\<close>

definition run :: "string list \<Rightarrow> rand \<Rightarrow> 'd call list \<Rightarrow> 'd system" where
  "run feeds r calls = exec (init feeds r) calls"

subsection \<open>Invariants of the executions\<close>



subsection \<open>Example executions\<close>

text \<open>
  A server with the one feed \<open>f1\<close> whose generator always yields 0, so that the token
  it mints is 32 times the first character of the charset. One client subscribes; then
  it listens, or an event is published, or both; the call that listens is signalled by
  the notifier or by its timeout.
\<close>

definition tokA :: string where
  "tokA = ''aaaaaaaaaaaaaaaaaaaaaaaaaaaaaaaa''"

definition ex_started :: "unit system" where
  "ex_started = run [''f1''] (\<lambda>_. 0) []"

definition ex_subscribed :: "unit system" where
  "ex_subscribed = run [''f1''] (\<lambda>_. 0) [Subscribe (Some [''f1''])]"

definition ex_listening :: "unit system" where
  "ex_listening = run [''f1''] (\<lambda>_. 0) [Subscribe (Some [''f1'']), Listen (Some [tokA])]"


definition ex_published :: "unit system" where
  "ex_published = run [''f1''] (\<lambda>_. 0)
     [Subscribe (Some [''f1'']), Listen (Some [tokA]), Publish ''f1'' None 0]"

definition ex_notified :: "unit system" where
  "ex_notified = run [''f1''] (\<lambda>_. 0)
     [Subscribe (Some [''f1'']), Listen (Some [tokA]), Publish ''f1'' None 0, RunNotify tokA]"

definition ex_timed_out :: "unit system" where
  "ex_timed_out = run [''f1''] (\<lambda>_. 0)
     [Subscribe (Some [''f1'']), Listen (Some [tokA]), FireTimeout 1, Resume 1]"

section \<open>Tokens are alphanumeric strings of the requested length\<close>

lemma length_charset: "length charset = 62"
  by (simp add: charset_def)

lemma fill_token_length: "length (fst (fill_token n r)) = n"
  by (induction n arbitrary: r) (simp_all add: split_beta Let_def)

lemma fill_token_charset: "set (fst (fill_token n r)) \<subseteq> set charset"
proof (induction n arbitrary: r)
  case 0
  show ?case by simp
next
  case (Suc n)
  have "fst (Intn r (length charset)) < length charset"
    by (simp add: Intn_def length_charset)
  then have "charset ! fst (Intn r (length charset)) \<in> set charset"
    by (rule nth_mem)
  with Suc show ?case
    by (simp add: split_beta Let_def)
qed

lemma fill_token_a: "fill_token n (\<lambda>_. 0) = (replicate n (CHR ''a''), \<lambda>_. 0)"
  by (induction n) (simp_all add: Intn_def charset_def)

lemma GetNewToken_32: "GetNewToken 32 (\<lambda>_. 0) = Some (tokA, \<lambda>_. 0)"
proof -
  have "replicate 32 (CHR ''a'') = tokA"
    unfolding tokA_def by (simp add: numeral_eq_Suc)
  then show ?thesis
    by (simp add: GetNewToken_def fill_token_a)
qed

lemma subscribe_loop_ok:
  "\<forall>feed \<in> set feeds. feed |\<in>| fmdom m \<Longrightarrow> snd (subscribe_loop token feeds m) = True"
proof (induction feeds arbitrary: m)
  case Nil
  show ?case by simp
next
  case (Cons feed feeds)
  then obtain cs where cs: "fmlookup m feed = Some cs"
    by (auto simp: fmlookup_dom_iff)
  have "\<forall>f \<in> set feeds. f |\<in>| fmdom (fmupd feed (fmupd token True cs) m)"
    using Cons.prems by simp
  then show ?case
    using Cons.IH cs by simp
qed

lemma SubscribeHandler_response:
  assumes g: "GetNewToken 32 (rng s) = Some (minted, r2)"
  shows "snd (SubscribeHandler s (Some feeds)) =
           (case find (\<lambda>feed. feed |\<notin>| fmdom (globalFeedToClients (poll s))) feeds of
              Some feed \<Rightarrow> Responded (ErrorResponse 500 (''Feed '' @ feed @ '' is not available''))
            | None \<Rightarrow> Responded (SubscriptionResponse minted feeds))"
proof (cases "find (\<lambda>feed. feed |\<notin>| fmdom (globalFeedToClients (poll s))) feeds")
  case None
  then have "\<forall>feed \<in> set feeds. feed |\<in>| fmdom (globalFeedToClients (poll s))"
    by (simp add: find_None_iff)
  then have "snd (subscribe_loop minted feeds (globalFeedToClients (poll s))) = True"
    by (rule subscribe_loop_ok)
  then show ?thesis
    using g None by (simp add: SubscribeHandler_def Let_def split_beta)
next
  case (Some feed)
  then show ?thesis
    using g by (simp add: SubscribeHandler_def Let_def)
qed

text \<open>
  C10. For every requested length \<open>n \<ge> 0\<close>, \<open>GetNewToken\<close> returns a string of
  exactly \<open>n\<close> characters, each of them from the charset of 62 letters and digits. In
  particular the token that \<open>SubscribeHandler\<close> mints, and returns when every feed is
  registered, has 32 such characters.
\<close>

theorem GetNewToken_length_charset:
  assumes "0 \<le> n"
  shows "(\<exists>token r'. GetNewToken n r = Some (token, r') \<and> int (length token) = n
            \<and> set token \<subseteq> set charset)
         \<and> length charset = 62
         \<and> (\<exists>minted r2. GetNewToken 32 (rng s) = Some (minted, r2) \<and> length minted = 32
              \<and> set minted \<subseteq> set charset
              \<and> snd (SubscribeHandler s (Some feeds)) =
                  (case find (\<lambda>feed. feed |\<notin>| fmdom (globalFeedToClients (poll s))) feeds of
                     Some feed \<Rightarrow> Responded (ErrorResponse 500
                                    (''Feed '' @ feed @ '' is not available''))
                   | None \<Rightarrow> Responded (SubscriptionResponse minted feeds)))"
proof (intro conjI)
  have "GetNewToken n r = Some (fst (fill_token (nat n) r), snd (fill_token (nat n) r))"
    using assms by (simp add: GetNewToken_def)
  moreover have "int (length (fst (fill_token (nat n) r))) = n"
    using assms by (simp add: fill_token_length)
  moreover have "set (fst (fill_token (nat n) r)) \<subseteq> set charset"
    by (rule fill_token_charset)
  ultimately show "\<exists>token r'. GetNewToken n r = Some (token, r') \<and> int (length token) = n
      \<and> set token \<subseteq> set charset"
    by blast
next
  show "length charset = 62"
    by (rule length_charset)
next
  have g: "GetNewToken 32 (rng s) = Some (fst (fill_token 32 (rng s)), snd (fill_token 32 (rng s)))"
    by (simp add: GetNewToken_def)
  have "length (fst (fill_token 32 (rng s))) = 32"
    by (rule fill_token_length)
  moreover have "set (fst (fill_token 32 (rng s))) \<subseteq> set charset"
    by (rule fill_token_charset)
  moreover note g SubscribeHandler_response [OF g, of feeds]
  ultimately show "\<exists>minted r2. GetNewToken 32 (rng s) = Some (minted, r2) \<and> length minted = 32
      \<and> set minted \<subseteq> set charset
      \<and> snd (SubscribeHandler s (Some feeds)) =
          (case find (\<lambda>feed. feed |\<notin>| fmdom (globalFeedToClients (poll s))) feeds of
             Some feed \<Rightarrow> Responded (ErrorResponse 500 (''Feed '' @ feed @ '' is not available''))
           | None \<Rightarrow> Responded (SubscriptionResponse minted feeds))"
    by (intro exI conjI)
qed

lemma fill_token_3: "fst (fill_token 3 (\<lambda>i. 30 * i)) = ''aE8''"
  by code_simp

theorem GetNewToken_length_charset_witness:
  "(0::int) \<le> 3 \<and> (\<exists>token r'. GetNewToken 3 (\<lambda>i. 30 * i) = Some (token, r')
      \<and> int (length token) = 3 \<and> set token \<subseteq> set charset) \<and>
   fst (fill_token 3 (\<lambda>i. 30 * i)) = ''aE8''"
proof -
  have h: "(0::int) \<le> 3"
    by simp
  from GetNewToken_length_charset [OF h, where r = "\<lambda>i. 30 * i"
      and s = "init [] (\<lambda>_. 0) :: unit system" and feeds = "[]"] fill_token_3 h
  show ?thesis
    by blast
qed

section \<open>The example executions, computed\<close>

lemma ex_subscribed_eq:
  "ex_subscribed = \<lparr>poll = \<lparr>globalClients = fmupd tokA False fmempty, globalEvents = fmempty,
     globalClientToNewEvents = fmempty,
     globalFeedToClients = fmupd ''f1'' (fmupd tokA True fmempty) fmempty,
     globalClientToConnection = fmempty, globalConnectionChannel = fmempty,
     globalLastConnection = 0\<rparr>, rng = (\<lambda>_. 0), receiving = fmempty, resuming = fmempty,
     sleeping = {||},
     spawned = (\<lambda>_. 0)\<rparr>"
  by (simp add: ex_subscribed_def run_def exec_def init_def New_def empty_LongPoll_def
      SubscribeHandler_def GetNewToken_32)

lemma ex_started_eq:
  "ex_started = \<lparr>poll = \<lparr>globalClients = fmempty, globalEvents = fmempty,
     globalClientToNewEvents = fmempty,
     globalFeedToClients = fmupd ''f1'' fmempty fmempty,
     globalClientToConnection = fmempty, globalConnectionChannel = fmempty,
     globalLastConnection = 0\<rparr>, rng = (\<lambda>_. 0), receiving = fmempty, resuming = fmempty,
     sleeping = {||},
     spawned = (\<lambda>_. 0)\<rparr>"
  by (simp add: ex_started_def run_def exec_def init_def New_def empty_LongPoll_def)

lemma ex_listening_eq:
  "ex_listening = \<lparr>poll = \<lparr>globalClients = fmupd tokA True fmempty, globalEvents = fmempty,
     globalClientToNewEvents = fmempty,
     globalFeedToClients = fmupd ''f1'' (fmupd tokA True fmempty) fmempty,
     globalClientToConnection = fmupd tokA 1 fmempty,
     globalConnectionChannel = fmupd 1 1 fmempty,
     globalLastConnection = 1\<rparr>, rng = (\<lambda>_. 0), receiving = fmupd 1 tokA fmempty,
     resuming = fmempty, sleeping = {|1|}, spawned = (\<lambda>_. 0)\<rparr>"
proof -
  have "ex_listening = step ex_subscribed (Listen (Some [tokA]))"
    by (simp add: ex_listening_def ex_subscribed_def run_def exec_def)
  then show ?thesis
    by (simp add: ex_subscribed_eq ListenHandler_def ListenHandler_register_def newEvents_def
        Let_def)
qed

lemma ex_published_eq:
  "ex_published = \<lparr>poll = \<lparr>globalClients = fmupd tokA True fmempty,
     globalEvents = fmupd 0 \<lparr>Data = None, Feed = ''f1'', Timestamp = 0\<rparr> fmempty,
     globalClientToNewEvents = fmupd tokA [0] fmempty,
     globalFeedToClients = fmupd ''f1'' (fmupd tokA True fmempty) fmempty,
     globalClientToConnection = fmupd tokA 1 fmempty,
     globalConnectionChannel = fmupd 1 1 fmempty,
     globalLastConnection = 1\<rparr>, rng = (\<lambda>_. 0), receiving = fmupd 1 tokA fmempty,
     resuming = fmempty, sleeping = {|1|}, spawned = (\<lambda>client. if client = tokA then 1 else 0)\<rparr>"
proof -
  have m: "fmmap_keys (\<lambda>client _. [0::nat]) (fmupd tokA True fmempty)
      = fmupd tokA [0] fmempty"
    by (rule fmap_ext) simp
  have "ex_published = step ex_listening (Publish ''f1'' None 0)"
    by (simp add: ex_listening_def ex_published_def run_def exec_def)
  also have "\<dots> = fst (NewEvent ex_listening ''f1'' None 0)"
    by simp
  finally show ?thesis
    unfolding ex_listening_eq
    by (simp add: NewEvent_def feedClients_def newEvents_def Let_def fcard_fempty m
        cong del: if_weak_cong)
qed


lemma ex_notified_eq:
  "ex_notified = \<lparr>poll = \<lparr>globalClients = fmupd tokA False fmempty,
     globalEvents = fmupd 0 \<lparr>Data = None, Feed = ''f1'', Timestamp = 0\<rparr> fmempty,
     globalClientToNewEvents = fmupd tokA [0] fmempty,
     globalFeedToClients = fmupd ''f1'' (fmupd tokA True fmempty) fmempty,
     globalClientToConnection = fmupd tokA 1 fmempty,
     globalConnectionChannel = fmupd 1 1 fmempty,
     globalLastConnection = 1\<rparr>, rng = (\<lambda>_. 0), receiving = fmempty,
     resuming = fmupd 1 (tokA, ''DONE'') fmempty, sleeping = {|1|}, spawned = (\<lambda>_. 0)\<rparr>"
proof -
  have sp: "(\<lambda>client. if client = tokA then 1 else 0)(tokA := 0) = (\<lambda>_. 0::nat)"
    by (simp add: fun_eq_iff)
  have "ex_notified = step ex_published (RunNotify tokA)"
    by (simp add: ex_notified_def ex_published_def run_def exec_def)
  then show ?thesis
    unfolding ex_published_eq
    by (simp add: notifyEvent_def clientPending_def send_def fmdrop_fmupd_same sp)
qed

lemma ex_timed_out_eq:
  "ex_timed_out = \<lparr>poll = \<lparr>globalClients = fmupd tokA True fmempty, globalEvents = fmempty,
     globalClientToNewEvents = fmempty,
     globalFeedToClients = fmupd ''f1'' (fmupd tokA True fmempty) fmempty,
     globalClientToConnection = fmempty,
     globalConnectionChannel = fmupd 1 1 fmempty,
     globalLastConnection = 1\<rparr>, rng = (\<lambda>_. 0), receiving = fmempty, resuming = fmempty,
     sleeping = {||}, spawned = (\<lambda>_. 0)\<rparr>"
proof -
  have "ex_timed_out = step (step ex_listening (FireTimeout 1)) (Resume 1)"
    by (simp add: ex_listening_def ex_timed_out_def run_def exec_def)
  then show ?thesis
    by (simp add: ex_listening_eq notifyTimeout_def send_def ListenHandler_continue_def
        ListenHandler_resume_def fmdrop_fmupd_same)
qed

lemma fmmap_keys_fmempty: "fmmap_keys f fmempty = fmempty"
  by (rule fmap_ext) simp

section \<open>Registering a feed again\<close>

text \<open>
  C6, as claimed: registering a feed that is already registered leaves the feed directory
  unchanged. It does not: in the server where \<open>tokA\<close> has subscribed to \<open>f1\<close>,
  \<open>AddFeed\<close> of \<open>f1\<close> replaces the subscriber set of \<open>f1\<close> by the empty one.
\<close>

theorem AddFeed_registered_counterexample:
  "''f1'' |\<in>| fmdom (globalFeedToClients (poll ex_subscribed))
   \<and> fmlookup (globalFeedToClients (poll ex_subscribed)) ''f1'' = Some (fmupd tokA True fmempty)
   \<and> fmlookup (globalFeedToClients (AddFeed (poll ex_subscribed) ''f1'')) ''f1'' = Some fmempty
   \<and> AddFeed (poll ex_subscribed) ''f1'' \<noteq> poll ex_subscribed"
proof -
  have "fmlookup (globalFeedToClients (AddFeed (poll ex_subscribed) ''f1'')) ''f1''
          \<noteq> fmlookup (globalFeedToClients (poll ex_subscribed)) ''f1''"
    by (simp add: ex_subscribed_eq AddFeed_def)
  then have "AddFeed (poll ex_subscribed) ''f1'' \<noteq> poll ex_subscribed"
    by auto
  then show ?thesis
    by (simp add: ex_subscribed_eq AddFeed_def)
qed

text \<open>
  C6, amended: registering a feed twice in a row is the same as registering it once, and
  registering never changes another feed; a registration of a non-empty name adds the
  name to the directory if it is new, and in every case gives it the empty subscriber
  set, also when the feed was registered with subscribers. The empty name is not
  registered.
\<close>

theorem AddFeed_twice:
  "AddFeed (AddFeed lp feed) feed = AddFeed lp feed
   \<and> fmdom (globalFeedToClients (AddFeed lp feed)) =
       (if feed = [] then fmdom (globalFeedToClients lp)
        else finsert feed (fmdom (globalFeedToClients lp)))
   \<and> fmlookup (globalFeedToClients (AddFeed lp feed)) other =
       (if other = feed \<and> feed \<noteq> [] then Some fmempty
        else fmlookup (globalFeedToClients lp) other)"
  by (simp add: AddFeed_def)

section \<open>Publishing to a feed that is not registered\<close>

text \<open>
  C2, as claimed: \<open>NewEvent\<close> on a feed that is not registered fails with an error.
  It does not: in the server whose only feed is \<open>f1\<close>, \<open>NewEvent\<close> on \<open>f2\<close>
  returns \<open>nil\<close> and stores the event in the log.
\<close>

theorem NewEvent_unknown_feed_counterexample:
  "''f2'' |\<notin>| fmdom (globalFeedToClients (poll ex_subscribed))
   \<and> snd (NewEvent ex_subscribed ''f2'' None 0) = None
   \<and> fmlookup (globalEvents (poll (fst (NewEvent ex_subscribed ''f2'' None 0)))) 0
       = Some \<lparr>Data = None, Feed = ''f2'', Timestamp = 0\<rparr>"
  by (simp add: ex_subscribed_eq NewEvent_def Let_def)

text \<open>
  C2, amended: for every feed name that is not registered and every payload,
  \<open>NewEvent\<close> returns no error; it stores the event in the log under the next index
  and changes nothing else: no list of new events grows and no notifier is started. For
  every other feed name \<open>NewEvent\<close> returns no error either. The index is not
  returned.
\<close>

theorem NewEvent_unknown_feed:
  assumes "feed |\<notin>| fmdom (globalFeedToClients (poll s))"
  shows "NewEvent s feed object now =
           (s\<lparr>poll := (poll s)\<lparr>globalEvents :=
                fmupd (fcard (fmdom (globalEvents (poll s))))
                  \<lparr>Data = object, Feed = feed, Timestamp = word_of_int now\<rparr>
                  (globalEvents (poll s))\<rparr>\<rparr>, None)
         \<and> snd (NewEvent s known object now) = None"
proof -
  have "fmlookup (globalFeedToClients (poll s)) feed = None"
    using assms by (simp add: fmdom_notD)
  then show ?thesis
    by (simp add: NewEvent_def feedClients_def Let_def fmmap_keys_fmempty)
qed

theorem NewEvent_unknown_feed_witness:
  "''f2'' |\<notin>| fmdom (globalFeedToClients (poll ex_subscribed))
   \<and> NewEvent ex_subscribed ''f2'' None 0 =
       (ex_subscribed\<lparr>poll := (poll ex_subscribed)\<lparr>globalEvents :=
           fmupd 0 \<lparr>Data = None, Feed = ''f2'', Timestamp = 0\<rparr> fmempty\<rparr>\<rparr>, None)"
proof -
  have h: "''f2'' |\<notin>| fmdom (globalFeedToClients (poll ex_subscribed))"
    by (simp add: ex_subscribed_eq)
  from NewEvent_unknown_feed [OF h, of None 0 "''f1''"] h show ?thesis
    by (simp add: ex_subscribed_eq fcard_fempty)
qed

section \<open>A subscription that names a feed that is not registered\<close>

text \<open>
  C5. A subscription naming a feed that is not registered fails with an error that names
  the first such feed and leaves all state unchanged, the token registry included. The
  code validates the feeds before it subscribes the token to any of them, but it has
  entered the token in \<open>globalClients\<close> before the validation: on the server with the
  one feed \<open>f1\<close>, the request for \<open>f1\<close> and \<open>f2\<close> is answered by the error
  that names \<open>f2\<close>, no feed gains a subscriber, and the registry has gained the minted
  token, which \<open>ListenHandler\<close> then accepts as a subscriber.
\<close>

theorem SubscribeHandler_unknown_feed_registers_token:
  "globalClients (poll ex_started) = fmempty
   \<and> snd (SubscribeHandler ex_started (Some [''f1'', ''f2'']))
       = Responded (ErrorResponse 500 ''Feed f2 is not available'')
   \<and> globalClients (poll (fst (SubscribeHandler ex_started (Some [''f1'', ''f2''])))) 
       = fmupd tokA False fmempty
   \<and> globalFeedToClients (poll (fst (SubscribeHandler ex_started (Some [''f1'', ''f2'']))))
       = globalFeedToClients (poll ex_started)
   \<and> fst (snd (ListenHandler (fst (SubscribeHandler ex_started (Some [''f1'', ''f2'']))) 
        (Some [tokA])))
       = Receiving 1"
  by (simp add: ex_started_eq SubscribeHandler_def GetNewToken_32
      ListenHandler_def ListenHandler_register_def newEvents_def Let_def)

section \<open>Waking from the abort signal\<close>

text \<open>
  C3, as claimed: the call that wakes from \<open>ABORT\<close> compares its connection with
  the active connection recorded for its token before it acts, and answers that it was
  aborted because it was superseded. It makes no comparison. When a second listen request
  arrives for \<open>tokA\<close>, the first call is handed the signal while the record still
  names its own connection 1, and with the record so it answers that it was aborted; it
  answers the same when the record names another connection.
\<close>

theorem send_ABORT_counterexample:
  "fmlookup (globalClientToConnection (poll ex_listening)) tokA = Some 1
   \<and> fmlookup (receiving ex_listening) 1 = Some tokA
   \<and> snd (snd (ListenHandler ex_listening (Some [tokA]))) = [(1, ''ABORT'')]
   \<and> fmlookup (resuming (fst (ListenHandler ex_listening (Some [tokA])))) 1
       = Some (tokA, ''ABORT'')
   \<and> ListenHandler_resume (poll ex_listening) tokA ''ABORT''
       = (poll ex_listening, ErrorResponse 204 ''Connection aborted'')
   \<and> ListenHandler_resume
         ((poll ex_listening)\<lparr>globalClientToConnection := fmupd tokA 2 fmempty\<rparr>) tokA ''ABORT''
       = ((poll ex_listening)\<lparr>globalClientToConnection := fmupd tokA 2 fmempty\<rparr>,
          ErrorResponse 204 ''Connection aborted'')"
  by (simp add: ex_listening_eq ListenHandler_def ListenHandler_register_def send_def
      ListenHandler_resume_def newEvents_def Let_def)

text \<open>
  C3, amended: a listen call that is waiting is handed the signal \<open>ABORT\<close> by the
  send; when it goes on, in whatever state the server then is and whatever connection is
  then recorded for its token, it answers 204, connection aborted, and it reads and
  changes nothing of the shared state, so the list of new events of its token stays as
  it is. There is no lock.
\<close>

theorem send_ABORT:
  assumes "fmlookup (receiving s) ch = Some token"
  shows "send s ch ''ABORT'' =
           Some (s\<lparr>receiving := fmdrop ch (receiving s),
                   resuming := fmupd ch (token, ''ABORT'') (resuming s)\<rparr>)
         \<and> ListenHandler_continue (s'\<lparr>resuming := fmupd ch (token, ''ABORT'') (resuming s')\<rparr>) ch =
             (s'\<lparr>resuming := fmdrop ch (resuming s')\<rparr>,
              Responded (ErrorResponse 204 ''Connection aborted''))"
  using assms
  by (simp add: send_def ListenHandler_continue_def ListenHandler_resume_def fmdrop_fmupd_same)

theorem send_ABORT_witness:
  "fmlookup (receiving ex_listening) 1 = Some tokA
   \<and> send ex_listening 1 ''ABORT'' =
       Some (ex_listening\<lparr>receiving := fmempty, resuming := fmupd 1 (tokA, ''ABORT'') fmempty\<rparr>)
   \<and> ListenHandler_continue
         (ex_listening\<lparr>receiving := fmempty, resuming := fmupd 1 (tokA, ''ABORT'') fmempty\<rparr>) 1 =
       (ex_listening\<lparr>receiving := fmempty\<rparr>, Responded (ErrorResponse 204 ''Connection aborted''))"
proof -
  have h: "fmlookup (receiving ex_listening) 1 = Some tokA"
    by (simp add: ex_listening_eq)
  from send_ABORT [OF h, of "ex_listening\<lparr>receiving := fmempty\<rparr>"] h show ?thesis
    by (simp add: ex_listening_eq fmdrop_fmupd_same)
qed

section \<open>The abort signal and the events that are already there\<close>




section \<open>Events that are already there, and a previous call that has just been woken\<close>

text \<open>
  C1. A listen request for a token that has new events is answered with them without
  blocking. The code skips the receive when there are events, but before that it sends
  \<open>ABORT\<close> to the connection recorded for the token, and the record is removed only
  at the end of the call that owns it. In the execution where \<open>tokA\<close> listens, an
  event is published and the notifier hands \<open>DONE\<close> to the waiting call, that call
  has left its receive and has not yet removed its connection from the record. A second
  listen request that is served at this moment finds one new event and the recorded
  connection 1, on whose channel nobody receives: it stays in the send for ever, is never
  answered and leaves the event in the list. The first call, when it goes on, is
  answered with the event.
\<close>

theorem ListenHandler_buffered_blocks:
  "newEvents (poll ex_notified) tokA = [0]
   \<and> fmlookup (globalClientToConnection (poll ex_notified)) tokA = Some 1
   \<and> fmlookup (receiving ex_notified) 1 = None
   \<and> fmlookup (resuming ex_notified) 1 = Some (tokA, ''DONE'')
   \<and> fst (snd (ListenHandler ex_notified (Some [tokA]))) = Sending (Some 1)
   \<and> newEvents (poll (fst (ListenHandler ex_notified (Some [tokA])))) tokA = [0]
   \<and> snd (ListenHandler_continue ex_notified 1) =
       Responded (EventResponse [\<lparr>Data = None, Feed = ''f1'', Timestamp = 0\<rparr>])"
  by (simp add: ex_notified_eq ListenHandler_def send_def ListenHandler_continue_def
      ListenHandler_resume_def fetchEvents_def newEvents_def eventAt_def Let_def)

section \<open>The log and the lists of new events in every execution\<close>

subsection \<open>Listening and notifying change the log quietly\<close>










lemma send_poll: "send s ch operation = Some s' \<Longrightarrow> poll s' = poll s"
  by (auto simp: send_def split: option.splits)











subsection \<open>Subscribing and publishing keep the log right\<close>

lemma newEvents_frame [simp]:
  "newEvents (lp\<lparr>globalClients := a\<rparr>) = newEvents lp"
  "newEvents (lp\<lparr>globalEvents := b\<rparr>) = newEvents lp"
  "newEvents (lp\<lparr>globalFeedToClients := c\<rparr>) = newEvents lp"
  "newEvents (lp\<lparr>globalClientToConnection := d\<rparr>) = newEvents lp"
  "newEvents (lp\<lparr>globalConnectionChannel := e\<rparr>) = newEvents lp"
  "newEvents (lp\<lparr>globalLastConnection := n\<rparr>) = newEvents lp"
  by (simp_all add: newEvents_def fun_eq_iff)

lemma eventAt_frame [simp]:
  "eventAt (lp\<lparr>globalClients := a\<rparr>) = eventAt lp"
  "eventAt (lp\<lparr>globalClientToNewEvents := b\<rparr>) = eventAt lp"
  "eventAt (lp\<lparr>globalFeedToClients := c\<rparr>) = eventAt lp"
  "eventAt (lp\<lparr>globalClientToConnection := d\<rparr>) = eventAt lp"
  "eventAt (lp\<lparr>globalConnectionChannel := e\<rparr>) = eventAt lp"
  "eventAt (lp\<lparr>globalLastConnection := n\<rparr>) = eventAt lp"
  by (simp_all add: eventAt_def fun_eq_iff)

lemma feedClients_frame [simp]:
  "feedClients (lp\<lparr>globalClients := a\<rparr>) = feedClients lp"
  "feedClients (lp\<lparr>globalClientToNewEvents := b\<rparr>) = feedClients lp"
  "feedClients (lp\<lparr>globalEvents := c\<rparr>) = feedClients lp"
  "feedClients (lp\<lparr>globalClientToConnection := d\<rparr>) = feedClients lp"
  "feedClients (lp\<lparr>globalConnectionChannel := e\<rparr>) = feedClients lp"
  "feedClients (lp\<lparr>globalLastConnection := n\<rparr>) = feedClients lp"
  by (simp_all add: feedClients_def fun_eq_iff)







lemma NewEvent_globalClients:
  "globalClients (poll (fst (NewEvent s feed object now))) = globalClients (poll s)"
  by (simp add: NewEvent_def Let_def)


subsection \<open>Every execution keeps the invariants\<close>







section \<open>The new events of a client are in the log\<close>











section \<open>A client is sent the events of its feeds, in the order of publication\<close>







section \<open>The pending flag\<close>

text \<open>
  C4, as claimed: the flag of a token in \<open>globalClients\<close> is true exactly while a
  listen call of the token is waiting, and it is false again after a call has timed out.
  It is not: after the one listen call of \<open>tokA\<close> has waited, has been handed the
  timeout and has answered 408, no call is waiting and the flag is still true.
\<close>

theorem pending_after_timeout_counterexample:
  "fst (snd (ListenHandler ex_subscribed (Some [tokA]))) = Receiving 1
   \<and> snd (ListenHandler_continue (fst (notifyTimeout ex_listening 1)) 1) =
       Responded (ErrorResponse 408 ''Request timeout'')
   \<and> receiving ex_timed_out = fmempty
   \<and> resuming ex_timed_out = fmempty
   \<and> clientPending (poll ex_timed_out) tokA"
  by (simp add: ex_timed_out_eq clientPending_def)
    (simp add: ex_subscribed_eq ex_listening_eq notifyTimeout_def send_def
      ListenHandler_def ListenHandler_register_def newEvents_def Let_def
      ListenHandler_continue_def ListenHandler_resume_def)

lemma ListenHandler_register_flag:
  "globalClients (poll (fst (ListenHandler_register s token cur))) =
     (if \<exists>c. snd (ListenHandler_register s token cur) = Receiving c
      then fmupd token True (globalClients (poll s)) else globalClients (poll s))"
  by (simp add: ListenHandler_register_def Let_def fetchEvents_def)

lemma ListenHandler_flag:
  "globalClients (poll (fst (ListenHandler s (Some (token # rest))))) =
     (if \<exists>c. fst (snd (ListenHandler s (Some (token # rest)))) = Receiving c
      then fmupd token True (globalClients (poll s)) else globalClients (poll s))"
proof (cases "token |\<in>| fmdom (globalClients (poll s))")
  case False
  then show ?thesis
    by (simp add: ListenHandler_def)
next
  case True
  let ?cur = "globalLastConnection (poll s) + 1"
  let ?s1 = "s\<lparr>poll := (poll s)\<lparr>globalLastConnection := ?cur\<rparr>\<rparr>"
  show ?thesis
  proof (cases "fmlookup (globalClientToConnection (poll s)) token")
    case None
    then show ?thesis
      using True ListenHandler_register_flag [of ?s1 token ?cur]
      by (simp add: ListenHandler_def Let_def split_beta)
  next
    case (Some prev)
    show ?thesis
    proof (cases "fmlookup (globalConnectionChannel (poll s)) prev")
      case None
      then show ?thesis
        using True Some by (simp add: ListenHandler_def Let_def)
    next
      case ch: (Some ch)
      show ?thesis
      proof (cases "send ?s1 ch ''ABORT''")
        case None
        then show ?thesis
          using True Some ch by (simp add: ListenHandler_def Let_def)
      next
        case s2: (Some s2)
        have "globalClients (poll s2) = globalClients (poll s)"
          using send_poll [OF s2] by simp
        then show ?thesis
          using True Some ch s2 ListenHandler_register_flag [of s2 token ?cur]
          by (simp add: ListenHandler_def Let_def split_beta)
      qed
    qed
  qed
qed

lemma notifyEvent_flag:
  "globalClients (poll (fst (notifyEvent s client))) =
     (if snd (snd (notifyEvent s client)) = [] then globalClients (poll s)
      else fmupd client False (globalClients (poll s)))"
  by (auto simp: notifyEvent_def send_poll split: option.splits)

lemma SubscribeHandler_flag:
  "globalClients (poll (fst (SubscribeHandler s (Some feeds)))) =
     fmupd (fst (fill_token 32 (rng s))) False (globalClients (poll s))"
  by (simp add: SubscribeHandler_def GetNewToken_def Let_def split_beta split: option.splits)

lemma ListenHandler_Receiving:
  assumes "ListenHandler s (Some (token # rest)) = (s1, Receiving c, w)"
  shows "fmlookup (globalClients (poll s1)) token = Some True"
    and "fmlookup (globalClientToConnection (poll s1)) token = Some c"
    and "fmlookup (globalConnectionChannel (poll s1)) c = Some c"
    and "fmlookup (receiving s1) c = Some token"
    and "newEvents (poll s1) token = []"
proof -
  have reg: "fmlookup (globalClients (poll s')) token = Some True
      \<and> fmlookup (globalClientToConnection (poll s')) token = Some c'
      \<and> fmlookup (globalConnectionChannel (poll s')) c' = Some c'
      \<and> fmlookup (receiving s') c' = Some token
      \<and> newEvents (poll s') token = []"
    if "ListenHandler_register s0 token cur = (s', Receiving c')" for s0 cur s' c'
    using that
    by (auto simp: ListenHandler_register_def Let_def fetchEvents_def newEvents_def
        split: if_splits)
  have "\<exists>s0 cur. ListenHandler_register s0 token cur = (s1, Receiving c)"
    using assms
    by (auto simp: ListenHandler_def Let_def split_beta split: if_splits option.splits)
      (metis prod.collapse)+
  then show "fmlookup (globalClients (poll s1)) token = Some True"
    and "fmlookup (globalClientToConnection (poll s1)) token = Some c"
    and "fmlookup (globalConnectionChannel (poll s1)) c = Some c"
    and "fmlookup (receiving s1) c = Some token"
    and "newEvents (poll s1) token = []"
    using reg by blast+
qed

text \<open>
  C4, amended: a listen request sets the flag of its token to true exactly when it
  starts to wait, and on no other path; the notifier sets the flag of its client to false
  exactly when it has sent \<open>DONE\<close>; a subscription sets the flag of the token it
  mints to false. Nothing else changes a flag: not a listen request that is refused, is
  answered with events or stays in its send, not the rest of a listen call after
  \<open>ABORT\<close>, \<open>TIMEOUT\<close> or \<open>DONE\<close>, not \<open>NewEvent\<close>, not the timeout. So
  when a call that waits is handed the timeout, it answers 408 and removes the connection
  recorded for its token, and the flag stays true although no call waits; a notifier that
  runs afterwards for the token finds no connection and returns without a signal. When
  instead a notifier runs while the call waits, it sends \<open>DONE\<close> and sets the flag to
  false.
\<close>

theorem pending_flag_changes:
  assumes "ListenHandler s (Some (token # rest)) = (s1, Receiving c, w)"
  shows "clientPending (poll s1) token \<and> fmlookup (receiving s1) c = Some token
     \<and> notifyTimeout s1 c =
          (s1\<lparr>receiving := fmdrop c (receiving s1),
              resuming := fmupd c (token, ''TIMEOUT'') (resuming s1)\<rparr>,
           Returned, [(c, ''TIMEOUT'')])
     \<and> (\<exists>s3. ListenHandler_continue (fst (notifyTimeout s1 c)) c =
              (s3, Responded (ErrorResponse 408 ''Request timeout''))
          \<and> fmlookup (receiving s3) c = None \<and> fmlookup (resuming s3) c = None
          \<and> clientPending (poll s3) token
          \<and> fmlookup (globalClientToConnection (poll s3)) token = None
          \<and> notifyEvent s3 token = (s3, Returned, []))
     \<and> (\<exists>s4. notifyEvent s1 token = (s4, Returned, [(c, ''DONE'')])
          \<and> fmlookup (receiving s4) c = None
          \<and> \<not> clientPending (poll s4) token)
     \<and> globalClients (poll (fst (ListenHandler x None))) = globalClients (poll x)
     \<and> globalClients (poll (fst (ListenHandler x (Some [])))) = globalClients (poll x)
     \<and> globalClients (poll (fst (ListenHandler x (Some (t # ts))))) =
          (if \<exists>c'. fst (snd (ListenHandler x (Some (t # ts)))) = Receiving c'
           then fmupd t True (globalClients (poll x)) else globalClients (poll x))
     \<and> globalClients (fst (ListenHandler_resume lp t operation)) = globalClients lp
     \<and> globalClients (poll (fst (ListenHandler_continue x ch))) = globalClients (poll x)
     \<and> globalClients (poll (fst (NewEvent x feed object now))) = globalClients (poll x)
     \<and> globalClients (poll (fst (notifyTimeout x ch))) = globalClients (poll x)
     \<and> globalClients (poll (fst (notifyEvent x client))) =
          (if snd (snd (notifyEvent x client)) = [] then globalClients (poll x)
           else fmupd client False (globalClients (poll x)))
     \<and> globalClients (poll (fst (SubscribeHandler x None))) = globalClients (poll x)
     \<and> globalClients (poll (fst (SubscribeHandler x (Some feeds)))) =
          fmupd (fst (fill_token 32 (rng x))) False (globalClients (poll x))"
proof -
  note f = ListenHandler_Receiving [OF assms]
  have p: "clientPending (poll s1) token"
    using f(1) by (simp add: clientPending_def)
  have t1: "notifyTimeout s1 c =
          (s1\<lparr>receiving := fmdrop c (receiving s1),
              resuming := fmupd c (token, ''TIMEOUT'') (resuming s1)\<rparr>,
           Returned, [(c, ''TIMEOUT'')])"
    using f(4) by (simp add: notifyTimeout_def send_def)
  have t2: "\<exists>s3. ListenHandler_continue (fst (notifyTimeout s1 c)) c =
              (s3, Responded (ErrorResponse 408 ''Request timeout''))
          \<and> fmlookup (receiving s3) c = None \<and> fmlookup (resuming s3) c = None
          \<and> clientPending (poll s3) token
          \<and> fmlookup (globalClientToConnection (poll s3)) token = None
          \<and> notifyEvent s3 token = (s3, Returned, [])"
    unfolding t1 using f
    by (simp add: ListenHandler_continue_def ListenHandler_resume_def clientPending_def
        notifyEvent_def)
  have d: "\<exists>s4. notifyEvent s1 token = (s4, Returned, [(c, ''DONE'')])
          \<and> fmlookup (receiving s4) c = None
          \<and> \<not> clientPending (poll s4) token"
    using f by (simp add: notifyEvent_def send_def clientPending_def)
  have l1: "globalClients (poll (fst (ListenHandler x None))) = globalClients (poll x)"
    and l2: "globalClients (poll (fst (ListenHandler x (Some [])))) = globalClients (poll x)"
    by (simp_all add: ListenHandler_def)
  have r: "globalClients (fst (ListenHandler_resume lp t operation)) = globalClients lp"
    by (simp add: ListenHandler_resume_def fetchEvents_def)
  have k: "globalClients (poll (fst (ListenHandler_continue x ch))) = globalClients (poll x)"
    by (simp add: ListenHandler_continue_def ListenHandler_resume_def fetchEvents_def
        split: option.splits)
  have n: "globalClients (poll (fst (NewEvent x feed object now))) = globalClients (poll x)"
    by (rule NewEvent_globalClients)
  have o: "globalClients (poll (fst (notifyTimeout x ch))) = globalClients (poll x)"
    by (auto simp: notifyTimeout_def send_poll split: option.splits)
  have u: "globalClients (poll (fst (SubscribeHandler x None))) = globalClients (poll x)"
    by (simp add: SubscribeHandler_def)
  show ?thesis
    by (intro conjI p f(4) t1 t2 d l1 l2 r k n o u ListenHandler_flag notifyEvent_flag
        SubscribeHandler_flag)
qed

theorem pending_flag_changes_witness:
  "ListenHandler ex_subscribed (Some [tokA]) = (ex_listening, Receiving 1, [])
   \<and> clientPending (poll ex_listening) tokA
   \<and> (\<exists>s3. ListenHandler_continue (fst (notifyTimeout ex_listening 1)) 1 =
              (s3, Responded (ErrorResponse 408 ''Request timeout''))
          \<and> clientPending (poll s3) tokA
          \<and> fmlookup (receiving s3) 1 = None)"
proof -
  have h: "ListenHandler ex_subscribed (Some [tokA]) = (ex_listening, Receiving 1, [])"
    unfolding ex_listening_eq
    by (simp add: ex_subscribed_eq ListenHandler_def ListenHandler_register_def newEvents_def
        Let_def)
  from pending_flag_changes [OF h] h show ?thesis
    by blast
qed

end
